theory Spec2Isabelle
  imports Complex_Main "HOL-Library.AList"
begin

section \<open>Python values\<close>

text \<open>
  The values that travel through the dispatcher are the results of \<open>json.loads\<close>:
  \<open>None\<close>, booleans, numbers, strings, lists and dicts. A dict is an association list in
  insertion order whose keys are distinct; \<open>map_of\<close> reads it. Numbers are integers
  (a JSON float is not modelled). Strings are ASCII text.
\<close>

datatype json =
    JNull
  | JBool bool
  | JNum int
  | JStr string
  | JArr "json list"
  | JObj "(string \<times> json) list"

text \<open>Exceptions: the class, as far as an \<open>except\<close> clause of the source tells classes
  apart, and \<open>str(e)\<close>. \<open>ValueError\<close> stands for that class and its subclasses,
  \<open>OtherException\<close> for every other subclass of \<open>Exception\<close>.\<close>

datatype exn_kind = ValueError | TypeError | AttributeError | OtherException

datatype exn = Exn exn_kind string

fun exn_class :: "exn \<Rightarrow> exn_kind" where
  "exn_class (Exn k m) = k"

fun exn_str :: "exn \<Rightarrow> string" where
  "exn_str (Exn k m) = m"

text \<open>Python's truth value of a value (\<open>if x:\<close>, \<open>not x\<close>).\<close>

fun truthy :: "json \<Rightarrow> bool" where
  "truthy JNull = False"
| "truthy (JBool b) = b"
| "truthy (JNum n) = (n \<noteq> 0)"
| "truthy (JStr s) = (s \<noteq> [])"
| "truthy (JArr xs) = (xs \<noteq> [])"
| "truthy (JObj kvs) = (kvs \<noteq> [])"

fun type_name :: "json \<Rightarrow> string" where
  "type_name JNull = ''NoneType''"
| "type_name (JBool b) = ''bool''"
| "type_name (JNum n) = ''int''"
| "type_name (JStr s) = ''str''"
| "type_name (JArr xs) = ''list''"
| "type_name (JObj kvs) = ''dict''"

text \<open>\<open>isinstance(x, dict)\<close>.\<close>

fun is_dict :: "json \<Rightarrow> bool" where
  "is_dict (JObj kvs) = True"
| "is_dict v = False"

text \<open>\<open>x.get(key, default)\<close>: only a dict has the method; on any other value the
  attribute lookup raises \<open>AttributeError\<close>.\<close>

fun py_get :: "json \<Rightarrow> string \<Rightarrow> json \<Rightarrow> exn + json" where
  "py_get (JObj kvs) key dflt = Inr (case map_of kvs key of Some v \<Rightarrow> v | None \<Rightarrow> dflt)"
| "py_get v key dflt =
     Inl (Exn AttributeError ([CHR 0x27] @ type_name v @ [CHR 0x27] @ '' object has no attribute '' @ [CHR 0x27] @ ''get'' @ [CHR 0x27]))"

text \<open>\<open>s.startswith(p)\<close> and \<open>p in s\<close> on strings.\<close>

fun startswith :: "string \<Rightarrow> string \<Rightarrow> bool" where
  "startswith s [] = True"
| "startswith [] (p # ps) = False"
| "startswith (c # cs) (p # ps) = (c = p \<and> startswith cs ps)"

fun contains_str :: "string \<Rightarrow> string \<Rightarrow> bool" where
  "contains_str [] p = (p = [])"
| "contains_str (c # cs) p = (startswith (c # cs) p \<or> contains_str cs p)"

text \<open>\<open>name in arguments\<close> and \<open>arguments[name]\<close> for a string \<open>name\<close>: key
  membership on a dict, element membership on a list, substring test on a string; the other
  values are not containers. Subscripting with a string works on a dict only.\<close>

fun py_in :: "string \<Rightarrow> json \<Rightarrow> exn + bool" where
  "py_in name (JObj kvs) = Inr (map_of kvs name \<noteq> None)"
| "py_in name (JArr xs) = Inr (List.member xs (JStr name))"
| "py_in name (JStr s) = Inr (contains_str s name)"
| "py_in name v =
     Inl (Exn TypeError (''argument of type '' @ [CHR 0x27] @ type_name v @ [CHR 0x27] @ '' is not iterable''))"

fun py_subscript :: "json \<Rightarrow> string \<Rightarrow> exn + json" where
  "py_subscript (JObj kvs) name =
     (case map_of kvs name of Some v \<Rightarrow> Inr v
      | None \<Rightarrow> Inl (Exn OtherException ([CHR 0x27] @ name @ [CHR 0x27])))"
| "py_subscript (JArr xs) name =
     Inl (Exn TypeError ''list indices must be integers or slices, not str'')"
| "py_subscript (JStr s) name =
     Inl (Exn TypeError ''string indices must be integers, not str'')"
| "py_subscript v name =
     Inl (Exn TypeError ([CHR 0x27] @ type_name v @ [CHR 0x27] @ '' object is not subscriptable''))"

section \<open>The environment\<close>

text \<open>
  What the code reads from outside: the successive results of \<open>time.time()\<close>, the
  successive results of \<open>str(uuid.uuid4())\<close>, and the builtin \<open>str\<close> on a value that
  is not a string (on a string it is the identity).
\<close>

record env =
  clock :: "nat \<Rightarrow> real"
  uuid4 :: "nat \<Rightarrow> string"
  str_of :: "json \<Rightarrow> string"

fun py_str :: "env \<Rightarrow> json \<Rightarrow> string" where
  "py_str E (JStr s) = s"
| "py_str E v = str_of E v"

section \<open>session_manager.py\<close>

record MCPSession =
  session_id :: string
  created_at :: real
  last_accessed :: real
  user_email :: "string option"
  initialized :: bool
  client_info :: json
  capabilities :: json

text \<open>
  The \<open>SessionManager\<close> object: the dict \<open>sessions\<close> (insertion ordered, assignment
  is \<open>AList.update\<close>, \<open>del\<close> is \<open>AList.delete\<close>) and \<open>session_timeout\<close>; with it
  the number of calls of \<open>time.time()\<close> and of \<open>uuid.uuid4()\<close> made so far, which select
  the next reading of the environment. Every method runs under the manager's lock, so a
  method is one atomic step on this state.
\<close>

record SessionManager =
  sessions :: "(string \<times> MCPSession) list"
  session_timeout :: int
  time_calls :: nat
  uuid_calls :: nat


definition time_time :: "env \<Rightarrow> SessionManager \<Rightarrow> real \<times> SessionManager" where
  "time_time E m = (clock E (time_calls m), m\<lparr>time_calls := Suc (time_calls m)\<rparr>)"

definition new_uuid :: "env \<Rightarrow> SessionManager \<Rightarrow> string \<times> SessionManager" where
  "new_uuid E m = (uuid4 E (uuid_calls m), m\<lparr>uuid_calls := Suc (uuid_calls m)\<rparr>)"

definition touch :: "env \<Rightarrow> MCPSession \<Rightarrow> SessionManager \<Rightarrow> MCPSession \<times> SessionManager" where
  "touch E s m = (case time_time E m of (t, m') \<Rightarrow> (s\<lparr>last_accessed := t\<rparr>, m'))"

definition is_expired :: "env \<Rightarrow> MCPSession \<Rightarrow> int \<Rightarrow> SessionManager \<Rightarrow> bool \<times> SessionManager" where
  "is_expired E s timeout_seconds m =
     (case time_time E m of (t, m') \<Rightarrow> (t - last_accessed s > real_of_int timeout_seconds, m'))"

text \<open>\<open>if not session_id\<close>: \<open>None\<close> and the empty string both count as no id.\<close>

fun given :: "string option \<Rightarrow> bool" where
  "given None = False"
| "given (Some s) = (s \<noteq> [])"

definition create_session :: "env \<Rightarrow> string option \<Rightarrow> SessionManager \<Rightarrow> MCPSession \<times> SessionManager" where
  "create_session E sid_opt m =
     (case (if given sid_opt then (the sid_opt, m) else new_uuid E m) of (sid, m1) \<Rightarrow>
      case time_time E m1 of (t1, m2) \<Rightarrow>
      case time_time E m2 of (t2, m3) \<Rightarrow>
        (let session = \<lparr>session_id = sid, created_at = t1, last_accessed = t2,
                        user_email = None, initialized = False,
                        client_info = JObj [], capabilities = JObj []\<rparr>
         in (session, m3\<lparr>sessions := AList.update sid session (sessions m3)\<rparr>)))"

definition get_session :: "env \<Rightarrow> string \<Rightarrow> SessionManager \<Rightarrow> MCPSession option \<times> SessionManager" where
  "get_session E sid m =
     (case map_of (sessions m) sid of
        None \<Rightarrow> (None, m)
      | Some session \<Rightarrow>
          (case is_expired E session (session_timeout m) m of (expired, m1) \<Rightarrow>
             if expired then (None, m1\<lparr>sessions := AList.delete sid (sessions m1)\<rparr>)
             else (case touch E session m1 of (session', m2) \<Rightarrow>
                     (Some session', m2\<lparr>sessions := AList.update sid session' (sessions m2)\<rparr>))))"

definition get_or_create_session :: "env \<Rightarrow> string option \<Rightarrow> SessionManager \<Rightarrow> MCPSession \<times> SessionManager" where
  "get_or_create_session E sid_opt m =
     (if given sid_opt then
        (case get_session E (the sid_opt) m of
           (Some session, m1) \<Rightarrow> (session, m1)
         | (None, m1) \<Rightarrow> create_session E sid_opt m1)
      else create_session E sid_opt m)"

text \<open>\<open>initialize_session\<close> ends with a log line that evaluates
  \<open>client_info.get('name', 'unknown')\<close>, after the session has been written; on a
  \<open>client_info\<close> that is not a dict that raises.\<close>

definition initialize_session ::
  "env \<Rightarrow> string \<Rightarrow> json \<Rightarrow> json \<Rightarrow> SessionManager \<Rightarrow> (exn + bool) \<times> SessionManager" where
  "initialize_session E sid ci caps m =
     (case get_session E sid m of
        (None, m1) \<Rightarrow> (Inr False, m1)
      | (Some session, m1) \<Rightarrow>
          (case touch E (session\<lparr>client_info := ci, capabilities := caps, initialized := True\<rparr>) m1 of
             (session', m2) \<Rightarrow>
               (let m3 = m2\<lparr>sessions := AList.update sid session' (sessions m2)\<rparr>
                in case py_get ci ''name'' (JStr ''unknown'') of
                     Inl e \<Rightarrow> (Inl e, m3)
                   | Inr v \<Rightarrow> (Inr True, m3))))"




definition get_session_count :: "SessionManager \<Rightarrow> nat" where
  "get_session_count m = length (sessions m)"






section \<open>Tools\<close>

text \<open>
  A registered tool is a Python function. What the dispatcher uses of it: its signature
  (\<open>inspect.signature\<close>, the parameters in declaration order with their annotation and
  default, each possibly absent), its docstring, and the call \<open>tool_func(**call_args)\<close>,
  which either returns a value or raises. The call includes Python's own binding of the
  keyword arguments, so a missing required argument is one of the ways it raises.
\<close>

datatype annotation = Ann_str | Ann_int | Ann_bool | Ann_list | Ann_other string

record param =
  param_annotation :: "annotation option"
  param_default :: "json option"

datatype outcome = Returns json | Raises exn

record tool_func =
  parameters :: "(string \<times> param) list"
  doc :: "string option"
  call :: "(string \<times> json) list \<Rightarrow> outcome"

text \<open>The chain of comparisons on \<open>param.annotation\<close>; \<open>Ann_other s\<close> is an annotation
  that is none of \<open>str\<close>, \<open>int\<close>, \<open>bool\<close>, \<open>list\<close>, with \<open>s\<close> its \<open>str()\<close>.\<close>

fun infer_type :: "annotation option \<Rightarrow> string" where
  "infer_type None = ''string''"
| "infer_type (Some Ann_str) = ''string''"
| "infer_type (Some Ann_int) = ''integer''"
| "infer_type (Some Ann_bool) = ''boolean''"
| "infer_type (Some Ann_list) = ''array''"
| "infer_type (Some (Ann_other s)) = (if startswith s ''List'' then ''array'' else ''string'')"

text \<open>\<open>description.strip().split('\n')[0]\<close>.\<close>

definition is_space :: "char \<Rightarrow> bool" where
  "is_space c = List.member [CHR 0x09, CHR 0x0A, CHR 0x0B, CHR 0x0C, CHR 0x0D,
                             CHR 0x1C, CHR 0x1D, CHR 0x1E, CHR 0x1F, CHR 0x20] c"

definition strip :: "string \<Rightarrow> string" where
  "strip s = rev (dropWhile is_space (rev (dropWhile is_space s)))"

definition first_line :: "string \<Rightarrow> string" where
  "first_line s = takeWhile (\<lambda>c. c \<noteq> CHR 0x0A) s"

section \<open>custom_mcp_protocol.py: the schema of tools/list\<close>

text \<open>The loop over \<open>sig.parameters.items()\<close> in \<open>get_tools_list\<close>, on the pair
  (\<open>properties\<close>, \<open>required\<close>).\<close>

fun tools_list_params ::
  "(string \<times> param) list \<Rightarrow> (string \<times> json) list \<times> string list
     \<Rightarrow> (string \<times> json) list \<times> string list" where
  "tools_list_params [] acc = acc"
| "tools_list_params ((param_name, p) # rest) (properties, required) =
     (if List.member [''service'', ''mcp_session_id''] param_name
      then tools_list_params rest (properties, required)
      else
        (let param_info = JObj [(''type'', JStr (infer_type (param_annotation p))),
                                (''description'', JStr (''Parameter: '' @ param_name))];
             required' = (if param_default p = None then required @ [param_name] else required)
         in tools_list_params rest (AList.update param_name param_info properties, required')))"

definition tool_description :: "string \<Rightarrow> tool_func \<Rightarrow> string" where
  "tool_description tool_name f =
     (let description = (case doc f of
                           None \<Rightarrow> ''Tool: '' @ tool_name
                         | Some d \<Rightarrow> if d = [] then ''Tool: '' @ tool_name else d)
      in if description \<noteq> [] then first_line (strip description) else description)"

definition tool_data :: "string \<Rightarrow> tool_func \<Rightarrow> json" where
  "tool_data tool_name f =
     (case tools_list_params (parameters f) ([], []) of (properties, required) \<Rightarrow>
        JObj [(''name'', JStr tool_name),
              (''description'', JStr (tool_description tool_name f)),
              (''inputSchema'', JObj [(''type'', JStr ''object''),
                                      (''properties'', JObj properties),
                                      (''required'', JArr (map JStr required))])])"

definition get_tools_list :: "(string \<times> tool_func) list \<Rightarrow> json list" where
  "get_tools_list tools_registry = map (\<lambda>(tool_name, f). tool_data tool_name f) tools_registry"

definition get_resources_list :: "json list" where
  "get_resources_list = []"

definition get_prompts_list :: "json list" where
  "get_prompts_list = []"

section \<open>mcp_handlers.py: the schema of the /mcp/tools/list route\<close>

text \<open>An entry of \<open>server._tools\<close>: its \<open>description\<close> attribute and its \<open>func\<close>
  attribute, each possibly absent.\<close>

record tool_info =
  info_description :: "string option"
  func :: "tool_func option"

fun registered_params ::
  "(string \<times> param) list \<Rightarrow> (string \<times> json) list \<times> string list
     \<Rightarrow> (string \<times> json) list \<times> string list" where
  "registered_params [] acc = acc"
| "registered_params ((param_name, p) # rest) (properties, required) =
     (if param_name = ''service''
      then registered_params rest (properties, required)
      else
        (let ty = (''type'', JStr (infer_type (param_annotation p)))
         in case param_default p of
              None \<Rightarrow>
                registered_params rest
                  (AList.update param_name (JObj [ty]) properties, required @ [param_name])
            | Some d \<Rightarrow>
                registered_params rest
                  (AList.update param_name (JObj [ty, (''default'', d)]) properties, required)))"

definition registered_tool :: "string \<Rightarrow> tool_info \<Rightarrow> json" where
  "registered_tool tool_name ti =
     JObj ([(''name'', JStr tool_name),
            (''description'', JStr (case info_description ti of
                                       Some d \<Rightarrow> d | None \<Rightarrow> ''Tool: '' @ tool_name))]
           @ (case func ti of
                None \<Rightarrow> []
              | Some f \<Rightarrow>
                  (case registered_params (parameters f) ([], []) of (properties, required) \<Rightarrow>
                     [(''inputSchema'', JObj [(''type'', JStr ''object''),
                                              (''properties'', JObj properties),
                                              (''required'', JArr (map JStr required))])])))"

definition get_registered_tools :: "(string \<times> tool_info) list \<Rightarrow> json list" where
  "get_registered_tools server_tools =
     map (\<lambda>(tool_name, ti). registered_tool tool_name ti) server_tools"

text \<open>Reading a tool's schema back out of a \<open>tools\<close> list.\<close>

fun field :: "string \<Rightarrow> json \<Rightarrow> json option" where
  "field k (JObj kvs) = map_of kvs k"
| "field k v = None"

definition find_tool :: "string \<Rightarrow> json list \<Rightarrow> json option" where
  "find_tool tool_name tools = List.find (\<lambda>t. field ''name'' t = Some (JStr tool_name)) tools"

definition schema_property :: "json \<Rightarrow> string \<Rightarrow> json option" where
  "schema_property tool pname =
     (case field ''inputSchema'' tool of
        None \<Rightarrow> None
      | Some sch \<Rightarrow> (case field ''properties'' sch of
                       None \<Rightarrow> None
                     | Some props \<Rightarrow> field pname props))"

definition schema_required :: "json \<Rightarrow> json option" where
  "schema_required tool =
     (case field ''inputSchema'' tool of None \<Rightarrow> None | Some sch \<Rightarrow> field ''required'' sch)"

section \<open>custom_mcp_protocol.py: call_tool\<close>

text \<open>The loop that prepares \<open>call_args\<close>. \<open>session_id\<close> is the dispatcher's value for
  the call (\<open>None\<close> is Python's \<open>None\<close>).\<close>

fun session_value :: "string option \<Rightarrow> json" where
  "session_value None = JNull"
| "session_value (Some s) = JStr s"

fun prepare_arguments ::
  "(string \<times> param) list \<Rightarrow> json \<Rightarrow> string option \<Rightarrow> (string \<times> json) list
     \<Rightarrow> exn + (string \<times> json) list" where
  "prepare_arguments [] arguments sid call_args = Inr call_args"
| "prepare_arguments ((param_name, p) # rest) arguments sid call_args =
     (if param_name = ''mcp_session_id''
      then prepare_arguments rest arguments sid
             (AList.update param_name (session_value sid) call_args)
      else
        (case py_in param_name arguments of
           Inl e \<Rightarrow> Inl e
         | Inr True \<Rightarrow>
             (case py_subscript arguments param_name of
                Inl e \<Rightarrow> Inl e
              | Inr v \<Rightarrow> prepare_arguments rest arguments sid (AList.update param_name v call_args))
         | Inr False \<Rightarrow>
             (case param_default p of
                Some d \<Rightarrow> prepare_arguments rest arguments sid (AList.update param_name d call_args)
              | None \<Rightarrow> prepare_arguments rest arguments sid call_args)))"

text \<open>\<open>tool_name not in self.tools_registry\<close> for the value the client sent as
  \<open>params.name\<close>: a list or a dict is unhashable, and no number, boolean or \<open>None\<close> equals
  a key of the registry, whose keys are strings.\<close>

fun resolve :: "env \<Rightarrow> (string \<times> tool_func) list \<Rightarrow> json \<Rightarrow> exn + tool_func" where
  "resolve E tools_registry (JStr s) =
     (case map_of tools_registry s of
        Some f \<Rightarrow> Inr f
      | None \<Rightarrow> Inl (Exn ValueError (''Tool '' @ [CHR 0x27] @ s @ [CHR 0x27] @ '' not found'')))"
| "resolve E tools_registry (JArr xs) =
     Inl (Exn TypeError (''unhashable type: '' @ [CHR 0x27] @ ''list'' @ [CHR 0x27]))"
| "resolve E tools_registry (JObj kvs) =
     Inl (Exn TypeError (''unhashable type: '' @ [CHR 0x27] @ ''dict'' @ [CHR 0x27]))"
| "resolve E tools_registry v =
     Inl (Exn ValueError (''Tool '' @ [CHR 0x27] @ py_str E v @ [CHR 0x27] @ '' not found''))"

definition call_tool ::
  "env \<Rightarrow> (string \<times> tool_func) list \<Rightarrow> json \<Rightarrow> json \<Rightarrow> string option \<Rightarrow> exn + json" where
  "call_tool E tools_registry tool_name arguments sid =
     (case resolve E tools_registry tool_name of
        Inl e \<Rightarrow> Inl e
      | Inr f \<Rightarrow>
          (case prepare_arguments (parameters f) arguments sid [] of
             Inl e \<Rightarrow> Inl e
           | Inr call_args \<Rightarrow>
               (case call f call_args of
                  Returns result \<Rightarrow> Inr result
                | Raises e \<Rightarrow> Inl e)))"

section \<open>custom_mcp_protocol.py: envelopes and handle_mcp_request\<close>

definition create_mcp_response :: "json \<Rightarrow> json \<Rightarrow> json option \<Rightarrow> json" where
  "create_mcp_response request_id result error =
     (case error of
        Some e \<Rightarrow>
          (if truthy e
           then JObj [(''jsonrpc'', JStr ''2.0''), (''id'', request_id), (''error'', e)]
           else JObj [(''jsonrpc'', JStr ''2.0''), (''id'', request_id), (''result'', result)])
      | None \<Rightarrow> JObj [(''jsonrpc'', JStr ''2.0''), (''id'', request_id), (''result'', result)])"

definition create_error_response :: "json \<Rightarrow> int \<Rightarrow> string \<Rightarrow> json option \<Rightarrow> json" where
  "create_error_response request_id code message data =
     create_mcp_response request_id JNull
       (Some (JObj ([(''code'', JNum code), (''message'', JStr message)]
                    @ (case data of None \<Rightarrow> [] | Some d \<Rightarrow> [(''data'', d)]))))"

text \<open>The request as the transport hands it over: the \<open>mcp-session-id\<close> header and the
  body. The body is empty, or bytes that are not UTF-8, or text that \<open>json.loads\<close>
  rejects (with the parser's message), or a JSON value.\<close>

datatype body = EmptyBody | UndecodableBody string | MalformedJson string | JsonBody json

record request =
  session_header :: "string option"
  request_body :: body

record response =
  status_code :: nat
  content :: json
  headers :: "(string \<times> string) list"

definition JSONResponse :: "json \<Rightarrow> nat \<Rightarrow> response" where
  "JSONResponse c status = \<lparr>status_code = status, content = c, headers = []\<rparr>"

definition initialize_result :: json where
  "initialize_result =
     JObj [(''protocolVersion'', JStr ''2024-11-05''),
           (''capabilities'',
              JObj [(''tools'', JObj [(''listChanged'', JBool False)]),
                    (''resources'', JObj [(''subscribe'', JBool False), (''listChanged'', JBool False)]),
                    (''prompts'', JObj [(''listChanged'', JBool False)]),
                    (''experimental'', JObj [])]),
           (''serverInfo'',
              JObj [(''name'', JStr ''google_workspace''), (''version'', JStr ''1.12.0'')])]"

text \<open>The branch \<open>method == 'initialize'\<close>.\<close>

definition handle_initialize ::
  "env \<Rightarrow> string \<Rightarrow> json \<Rightarrow> json \<Rightarrow> SessionManager \<Rightarrow> (exn + response) \<times> SessionManager" where
  "handle_initialize E sid request_id params m =
     (case get_or_create_session E (Some sid) m of (session, m1) \<Rightarrow>
      case py_get params ''clientInfo'' (JObj []) of
        Inl e \<Rightarrow> (Inl e, m1)
      | Inr ci \<Rightarrow>
          (case py_get params ''capabilities'' (JObj []) of
             Inl e \<Rightarrow> (Inl e, m1)
           | Inr caps \<Rightarrow>
               (case initialize_session E sid ci caps m1 of
                  (Inl e, m2) \<Rightarrow> (Inl e, m2)
                | (Inr ok, m2) \<Rightarrow>
                    (Inr ((JSONResponse (create_mcp_response request_id initialize_result None) 200)
                            \<lparr>headers := [(''mcp-session-id'', sid)]\<rparr>), m2))))"

text \<open>The branch \<open>method == 'tools/call'\<close>, with its two \<open>except\<close> clauses in order.\<close>

definition handle_tools_call ::
  "env \<Rightarrow> (string \<times> tool_func) list \<Rightarrow> string \<Rightarrow> json \<Rightarrow> json \<Rightarrow> exn + response" where
  "handle_tools_call E tools_registry sid request_id params =
     (case py_get params ''name'' JNull of
        Inl e \<Rightarrow> Inl e
      | Inr tool_name \<Rightarrow>
          (case py_get params ''arguments'' (JObj []) of
             Inl e \<Rightarrow> Inl e
           | Inr arguments \<Rightarrow>
               (if \<not> truthy tool_name
                then Inr (JSONResponse (create_error_response request_id (- 32602)
                                          ''Invalid params: Missing tool name'' None) 400)
                else
                  (case call_tool E tools_registry tool_name arguments (Some sid) of
                     Inr result \<Rightarrow>
                       Inr (JSONResponse
                              (create_mcp_response request_id
                                 (JObj [(''content'',
                                         JArr [JObj [(''type'', JStr ''text''),
                                                     (''text'', JStr (py_str E result))]])])
                                 None) 200)
                   | Inl e \<Rightarrow>
                       (if exn_class e = ValueError
                        then Inr (JSONResponse (create_error_response request_id (- 32601)
                                                  (''Method not found: '' @ exn_str e) None) 404)
                        else Inr (JSONResponse (create_error_response request_id (- 32603)
                                                  (''Internal error: '' @ exn_str e) None) 500))))))"

text \<open>The body of the outer \<open>try\<close> from the validation of the parsed value on; \<open>Inl\<close> is an
  exception that reaches the outer \<open>except\<close>. The first test is Python's short-circuit
  \<open>not isinstance(rpc_request, dict) or rpc_request.get('jsonrpc') != '2.0'\<close>: the right
  operand is evaluated on a dict only.\<close>

definition handle_rpc ::
  "env \<Rightarrow> (string \<times> tool_func) list \<Rightarrow> string \<Rightarrow> json \<Rightarrow> SessionManager
     \<Rightarrow> (exn + response) \<times> SessionManager" where
  "handle_rpc E tools_registry sid rpc_request m =
     (if (if is_dict rpc_request
          then py_get rpc_request ''jsonrpc'' JNull \<noteq> Inr (JStr ''2.0'')
          else True)
      then
        (case py_get rpc_request ''id'' JNull of
           Inl e \<Rightarrow> (Inl e, m)
         | Inr rid \<Rightarrow>
             (Inr (JSONResponse (create_error_response rid (- 32600)
                                   ''Invalid Request: Not a valid JSON-RPC 2.0 request'' None) 400), m))
      else
        (case py_get rpc_request ''id'' JNull of Inl e \<Rightarrow> (Inl e, m) | Inr request_id \<Rightarrow>
         case py_get rpc_request ''method'' JNull of Inl e \<Rightarrow> (Inl e, m) | Inr method \<Rightarrow>
         case py_get rpc_request ''params'' (JObj []) of Inl e \<Rightarrow> (Inl e, m) | Inr params \<Rightarrow>
           (if \<not> truthy method
            then (Inr (JSONResponse (create_error_response request_id (- 32600)
                                       ''Invalid Request: Missing method'' None) 400), m)
            else if method = JStr ''initialize''
            then handle_initialize E sid request_id params m
            else if method = JStr ''tools/list''
            then (Inr (JSONResponse
                         (create_mcp_response request_id
                            (JObj [(''tools'', JArr (get_tools_list tools_registry))]) None) 200), m)
            else if method = JStr ''resources/list''
            then (Inr (JSONResponse
                         (create_mcp_response request_id
                            (JObj [(''resources'', JArr get_resources_list)]) None) 200), m)
            else if method = JStr ''prompts/list''
            then (Inr (JSONResponse
                         (create_mcp_response request_id
                            (JObj [(''prompts'', JArr get_prompts_list)]) None) 200), m)
            else if method = JStr ''tools/call''
            then (handle_tools_call E tools_registry sid request_id params, m)
            else (Inr (JSONResponse (create_error_response request_id (- 32601)
                                       (''Method not found: '' @ py_str E method) None) 404), m))))"

definition internal_error :: "exn \<Rightarrow> response" where
  "internal_error e =
     JSONResponse (create_error_response JNull (- 32603) (''Internal error: '' @ exn_str e) None) 500"

definition handle_mcp_request ::
  "env \<Rightarrow> (string \<times> tool_func) list \<Rightarrow> request \<Rightarrow> SessionManager \<Rightarrow> response \<times> SessionManager" where
  "handle_mcp_request E tools_registry req m =
     (case (if given (session_header req) then (the (session_header req), m)
            else (case get_or_create_session E None m of (session, m') \<Rightarrow> (session_id session, m')))
      of (sid, m1) \<Rightarrow>
        (case request_body req of
           EmptyBody \<Rightarrow>
             (JSONResponse (create_error_response JNull (- 32700) ''Parse error: Empty request'' None) 400, m1)
         | UndecodableBody msg \<Rightarrow> (internal_error (Exn ValueError msg), m1)
         | MalformedJson msg \<Rightarrow>
             (JSONResponse (create_error_response JNull (- 32700) (''Parse error: '' @ msg) None) 400, m1)
         | JsonBody rpc_request \<Rightarrow>
             (case handle_rpc E tools_registry sid rpc_request m1 of
                (Inl e, m2) \<Rightarrow> (internal_error e, m2)
              | (Inr resp, m2) \<Rightarrow> (resp, m2))))"

text \<open>Reading a response: the error code of its envelope, if it is an error envelope, and
  whether it carries a result.\<close>

definition error_code :: "response \<Rightarrow> json option" where
  "error_code r = (case field ''error'' (content r) of None \<Rightarrow> None | Some e \<Rightarrow> field ''code'' e)"

definition error_message :: "response \<Rightarrow> json option" where
  "error_message r = (case field ''error'' (content r) of None \<Rightarrow> None | Some e \<Rightarrow> field ''message'' e)"

definition result_of :: "response \<Rightarrow> json option" where
  "result_of r = field ''result'' (content r)"

section \<open>Invariants of the session store\<close>



section \<open>Example inputs\<close>

text \<open>An environment whose clock advances by ten seconds a reading for six readings and
  then jumps by more than an hour.\<close>

definition E0 :: env where
  "E0 = \<lparr>clock = (\<lambda>n. if n < 6 then real n * 10 else 10000 + real n * 10),
         uuid4 = (\<lambda>n. replicate (Suc n) CHR ''u''), str_of = (\<lambda>v. ''?'')\<rparr>"

text \<open>An environment whose clock jumps by more than an hour between any two readings.\<close>

definition E_jump :: env where
  "E_jump = \<lparr>clock = (\<lambda>n. real n * 4000),
             uuid4 = (\<lambda>n. replicate (Suc n) CHR ''u''), str_of = (\<lambda>v. ''?'')\<rparr>"

text \<open>
  Two tools. \<open>echo\<close> is
  \<^verbatim>\<open>def echo(service, a: str, b: int = 5, mcp_session_id: str = None)\<close>
  and returns the keyword arguments it was called with, so that what was bound to each
  parameter can be read off the result; called without \<open>a\<close> or without \<open>service\<close> it
  raises the \<open>TypeError\<close> of Python's argument binding. \<open>fail\<close> is
  \<^verbatim>\<open>def fail(): raise ValueError("boom")\<close>.
\<close>

definition echo_tool :: tool_func where
  "echo_tool =
     \<lparr>parameters =
        [(''service'', \<lparr>param_annotation = None, param_default = None\<rparr>),
         (''a'', \<lparr>param_annotation = Some Ann_str, param_default = None\<rparr>),
         (''b'', \<lparr>param_annotation = Some Ann_int, param_default = Some (JNum 5)\<rparr>),
         (''mcp_session_id'', \<lparr>param_annotation = Some Ann_str, param_default = Some JNull\<rparr>)],
      doc = Some ''Echo the arguments.'',
      call = (\<lambda>kwargs. if map_of kwargs ''service'' = None
                         then Raises (Exn TypeError ''echo() missing 1 required positional argument: service'')
                         else if map_of kwargs ''a'' = None
                         then Raises (Exn TypeError ''echo() missing 1 required positional argument: a'')
                         else Returns (JObj kwargs))\<rparr>"

definition fail_tool :: tool_func where
  "fail_tool =
     \<lparr>parameters = [], doc = None, call = (\<lambda>kwargs. Raises (Exn ValueError ''boom''))\<rparr>"

definition demo_registry :: "(string \<times> tool_func) list" where
  "demo_registry = [(''echo'', echo_tool), (''fail'', fail_tool)]"

definition demo_server_tools :: "(string \<times> tool_info) list" where
  "demo_server_tools = [(''echo'', \<lparr>info_description = None, func = Some echo_tool\<rparr>)]"

text \<open>Requests: an envelope with the given method and params, sent with or without the
  session header.\<close>

definition envelope :: "string \<Rightarrow> json \<Rightarrow> json" where
  "envelope method params =
     JObj [(''jsonrpc'', JStr ''2.0''), (''id'', JNum 1), (''method'', JStr method),
           (''params'', params)]"

definition demo_request :: "string option \<Rightarrow> json \<Rightarrow> request" where
  "demo_request header rpc = \<lparr>session_header = header, request_body = JsonBody rpc\<rparr>"

section \<open>The session store: invariants\<close>





lemma advances_get_session_None:
  "map_of (sessions m) k = None \<Longrightarrow> get_session E k m = (None, m)"
  by (simp add: get_session_def)





































lemma prepare_arguments_dict_total:
  "\<exists>call_args. prepare_arguments ps (JObj kvs) sid acc = Inr call_args
      \<and> fst ` set call_args \<subseteq> fst ` set acc \<union> fst ` set ps"
proof (induction ps arbitrary: acc)
  case Nil
  then show ?case by simp
next
  case (Cons a ps)
  obtain n p where a: "a = (n, p)" by (cases a)
  have sub: "fst ` set acc' \<union> fst ` set ps \<subseteq> fst ` set acc \<union> fst ` set ((n, p) # ps)"
    if "fst ` set acc' \<subseteq> insert n (fst ` set acc)" for acc' :: "(string \<times> json) list"
    using that by auto
  have ih: "\<exists>call_args. prepare_arguments ps (JObj kvs) sid acc' = Inr call_args
      \<and> fst ` set call_args \<subseteq> fst ` set acc \<union> fst ` set ((n, p) # ps)"
    if "fst ` set acc' \<subseteq> insert n (fst ` set acc)" for acc'
  proof -
    from Cons.IH[of acc'] obtain ca where ca: "prepare_arguments ps (JObj kvs) sid acc' = Inr ca"
      "fst ` set ca \<subseteq> fst ` set acc' \<union> fst ` set ps" by blast
    from ca(2) sub[OF that] have "fst ` set ca \<subseteq> fst ` set acc \<union> fst ` set ((n, p) # ps)"
      by (rule subset_trans)
    with ca(1) show ?thesis by blast
  qed
  have upd: "fst ` set (AList.update n v acc) \<subseteq> insert n (fst ` set acc)" for v
    by (simp add: dom_update)
  have same: "fst ` set acc \<subseteq> insert n (fst ` set acc)" by blast
  show ?case
  proof (cases "n = ''mcp_session_id''")
    case True
    then show ?thesis unfolding a using ih[OF upd] by simp
  next
    case False
    show ?thesis
    proof (cases "map_of kvs n")
      case None
      show ?thesis
      proof (cases "param_default p")
        case None
        with \<open>map_of kvs n = None\<close> False show ?thesis unfolding a using ih[OF same] by simp
      next
        case (Some d)
        with \<open>map_of kvs n = None\<close> False show ?thesis unfolding a using ih[OF upd] by simp
      qed
    next
      case (Some v)
      with False show ?thesis unfolding a using ih[OF upd] by simp
    qed
  qed
qed

lemma prepare_arguments_dict_cong:
  assumes "\<forall>k \<in> fst ` set ps. map_of kvs k = map_of kvs' k"
  shows "prepare_arguments ps (JObj kvs) sid acc = prepare_arguments ps (JObj kvs') sid acc"
  using assms
proof (induction ps arbitrary: acc)
  case Nil
  then show ?case by simp
next
  case (Cons a ps)
  obtain n p where a: "a = (n, p)" by (cases a)
  have eq: "map_of kvs n = map_of kvs' n" using Cons.prems a by simp
  have ih: "prepare_arguments ps (JObj kvs) sid acc' = prepare_arguments ps (JObj kvs') sid acc'" for acc'
    using Cons.IH Cons.prems by simp
  show ?case unfolding a
    by (cases "map_of kvs' n"; cases "param_default p") (simp_all add: eq ih)
qed

lemma map_of_filter_keys:
  "P k \<Longrightarrow> map_of (filter (\<lambda>kv. P (fst kv)) kvs) k = map_of kvs k"
  by (induction kvs) auto


text \<open>
  Claim C10. For a registered tool and a dict of client arguments, preparing the call
  arguments always succeeds and yields only names the signature declares; and the call gives
  the same outcome as with every entry under an undeclared name removed from the arguments.
\<close>

theorem extra_arguments_dropped:
  assumes "map_of tools_registry name = Some f"
  shows "(\<exists>call_args. prepare_arguments (parameters f) (JObj kvs) sid [] = Inr call_args
            \<and> fst ` set call_args \<subseteq> fst ` set (parameters f))
       \<and> call_tool E tools_registry (JStr name) (JObj kvs) sid
           = call_tool E tools_registry (JStr name)
               (JObj (filter (\<lambda>kv. fst kv \<in> fst ` set (parameters f)) kvs)) sid"
proof
  show "\<exists>call_args. prepare_arguments (parameters f) (JObj kvs) sid [] = Inr call_args
            \<and> fst ` set call_args \<subseteq> fst ` set (parameters f)"
    using prepare_arguments_dict_total[of "parameters f" kvs sid "[]"] by simp
  have "\<forall>k \<in> fst ` set (parameters f).
          map_of kvs k = map_of (filter (\<lambda>kv. fst kv \<in> fst ` set (parameters f)) kvs) k"
    using map_of_filter_keys[of "\<lambda>k. k \<in> fst ` set (parameters f)" _ kvs] by simp
  then have "prepare_arguments (parameters f) (JObj kvs) sid []
      = prepare_arguments (parameters f)
          (JObj (filter (\<lambda>kv. fst kv \<in> fst ` set (parameters f)) kvs)) sid []"
    by (rule prepare_arguments_dict_cong)
  then show "call_tool E tools_registry (JStr name) (JObj kvs) sid
           = call_tool E tools_registry (JStr name)
               (JObj (filter (\<lambda>kv. fst kv \<in> fst ` set (parameters f)) kvs)) sid"
    using assms by (simp add: call_tool_def)
qed

theorem extra_arguments_dropped_witness:
  "map_of demo_registry ''echo'' = Some echo_tool
   \<and> call_tool E0 demo_registry (JStr ''echo'')
        (JObj [(''service'', JStr ''h''), (''a'', JStr ''v''), (''zzz'', JNum 1)]) (Some ''sid'')
      = Inr (JObj [(''service'', JStr ''h''), (''a'', JStr ''v''), (''b'', JNum 5),
                   (''mcp_session_id'', JStr ''sid'')])"
proof -
  have r: "map_of demo_registry ''echo'' = Some echo_tool" by (simp add: demo_registry_def)
  have "call_tool E0 demo_registry (JStr ''echo'')
        (JObj (filter (\<lambda>kv. fst kv \<in> fst ` set (parameters echo_tool))
           [(''service'', JStr ''h''), (''a'', JStr ''v''), (''zzz'', JNum 1)])) (Some ''sid'')
      = Inr (JObj [(''service'', JStr ''h''), (''a'', JStr ''v''), (''b'', JNum 5),
                   (''mcp_session_id'', JStr ''sid'')])"
    by (simp add: call_tool_def demo_registry_def echo_tool_def)
  with extra_arguments_dropped[OF r, of "[(''service'', JStr ''h''), (''a'', JStr ''v''), (''zzz'', JNum 1)]"
      "Some ''sid''" E0] r
  show ?thesis by simp
qed

end
